theory Spec2Isabelle
  imports Complex_Main "HOL-Library.Multiset"
begin

section \<open>Errors\<close>

text \<open>
  The failures of the recommender core, as values.  \<open>IndexOutOfRange\<close> is an embedding
  lookup past the end of its table, \<open>DimensionMismatch\<close> a tensor operation on operands of
  different shape (or a \<open>view\<close> that does not fit), \<open>InvalidArgument\<close> a bad configuration
  value, and \<open>GradientRequired\<close> the failure of \<open>assert_no_grad\<close>.
\<close>

datatype error = IndexOutOfRange | DimensionMismatch | InvalidArgument | GradientRequired

section \<open>Regression loss\<close>

text \<open>
  A tensor handed to a loss function is the sequence of its entries together with the
  autograd flag \<open>requires_grad\<close>.  Entries are real numbers: the rounding of the
  floating-point backend is not part of this model.
\<close>

record tensor =
  entries :: "real list"
  requires_grad :: bool

text \<open>A sequence of plain numbers is a tensor that takes no part in differentiation.\<close>

definition const_tensor :: "real list \<Rightarrow> tensor" where
  "const_tensor xs = \<lparr>entries = xs, requires_grad = False\<rparr>"

text \<open>
  The result of a reduction to one number.  The mean of a tensor without entries is the
  backend's not-a-number (0 divided by 0), which is not an exception.
\<close>

datatype scalar = Finite real | NaN

text \<open>
  Modelled from the spec: \<open>assert_no_grad\<close> (module \<open>spotlight.torch_utils\<close>) is called by
  \<open>regression_loss\<close> but its body is not among the sources.  The observed values are
  constants during differentiation, so the check fails exactly for a tensor that requires a
  gradient.
\<close>

definition assert_no_grad :: "tensor \<Rightarrow> error + unit" where
  "assert_no_grad variable =
     (if requires_grad variable then Inl GradientRequired else Inr ())"

text \<open>\<open>a - b\<close> on tensors: entry by entry, and an error when the sizes differ.\<close>

definition tensor_sub :: "real list \<Rightarrow> real list \<Rightarrow> error + real list" where
  "tensor_sub a b =
     (if length a = length b then Inr (map2 (\<lambda>x y. x - y) a b) else Inl DimensionMismatch)"

text \<open>\<open>t ** 2\<close>: every entry squared.\<close>

definition tensor_square :: "real list \<Rightarrow> real list" where
  "tensor_square t = map (\<lambda>x. x ^ 2) t"

text \<open>\<open>t.mean()\<close>.\<close>

definition tensor_mean :: "real list \<Rightarrow> scalar" where
  "tensor_mean t = (if t = [] then NaN else Finite (sum_list t / real (length t)))"

text \<open>
  \<open>regression_loss(observed_ratings, predicted_ratings)\<close>: first the check on the observed
  ratings, then \<open>((observed_ratings - predicted_ratings) ** 2).mean()\<close>.
\<close>

definition regression_loss :: "tensor \<Rightarrow> tensor \<Rightarrow> error + scalar" where
  "regression_loss observed_ratings predicted_ratings =
     (case assert_no_grad observed_ratings of
        Inl e \<Rightarrow> Inl e
      | Inr _ \<Rightarrow>
          (case tensor_sub (entries observed_ratings) (entries predicted_ratings) of
             Inl e \<Rightarrow> Inl e
           | Inr diff \<Rightarrow> Inr (tensor_mean (tensor_square diff))))"

text \<open>The mean of the squared differences, written as in the specification.\<close>

definition mean_squared_difference :: "real list \<Rightarrow> real list \<Rightarrow> real" where
  "mean_squared_difference a b =
     (\<Sum>k<length a. (a ! k - b ! k) ^ 2) / real (length a)"

section \<open>Bilinear scorer\<close>

text \<open>
  A two-dimensional tensor is the list of its rows.  An embedding layer is its weight
  table, one row per index, and the flag for sparse gradients.
\<close>

type_synonym matrix = "real list list"

record Embedding =
  weight :: matrix
  sparse :: bool

text \<open>
  The attributes that \<open>BilinearNet.__init__\<close> sets: the Latent Parameter Table of the
  specification.
\<close>

record BilinearNet =
  embedding_dim :: nat
  user_embeddings :: Embedding
  item_embeddings :: Embedding
  user_biases :: Embedding
  item_biases :: Embedding

definition num_users :: "BilinearNet \<Rightarrow> nat" where
  "num_users net = length (weight (user_embeddings net))"

definition num_items :: "BilinearNet \<Rightarrow> nat" where
  "num_items net = length (weight (item_embeddings net))"

text \<open>
  Modelled from the spec: calling an embedding layer on a batch of indices
  (\<open>ScaledEmbedding\<close> and \<open>ZeroEmbedding\<close> of \<open>spotlight.layers\<close>, whose code is not among the
  sources).  It returns the rows of the table at the given indices, and fails with
  IndexOutOfRange if any index is not below the number of rows.
\<close>

fun embedding_rows :: "matrix \<Rightarrow> nat list \<Rightarrow> error + matrix" where
  "embedding_rows W [] = Inr []"
| "embedding_rows W (i # ids) =
     (if i < length W
      then (case embedding_rows W ids of
              Inl e \<Rightarrow> Inl e
            | Inr rows \<Rightarrow> Inr (W ! i # rows))
      else Inl IndexOutOfRange)"

text \<open>
  \<open>forward\<close> is a method of an object with mutable attributes: an operation takes the
  object and returns its outcome together with the object afterwards.
\<close>

type_synonym 'a net_op = "BilinearNet \<Rightarrow> (error + 'a) \<times> BilinearNet"

definition bind_op :: "'a net_op \<Rightarrow> ('a \<Rightarrow> 'b net_op) \<Rightarrow> 'b net_op" where
  "bind_op m f = (\<lambda>self. case m self of
                     (Inl e, self') \<Rightarrow> (Inl e, self')
                   | (Inr x, self') \<Rightarrow> f x self')"

text \<open>Reading an attribute, calling one of the layers, and a computation on local tensors.\<close>

definition attribute :: "(BilinearNet \<Rightarrow> 'a) \<Rightarrow> 'a net_op" where
  "attribute field = (\<lambda>self. (Inr (field self), self))"

definition call_layer :: "(BilinearNet \<Rightarrow> Embedding) \<Rightarrow> nat list \<Rightarrow> matrix net_op" where
  "call_layer layer ids = (\<lambda>self. (embedding_rows (weight (layer self)) ids, self))"

definition local_op :: "error + 'a \<Rightarrow> 'a net_op" where
  "local_op result = (\<lambda>self. (result, self))"

text \<open>Cutting a flat sequence of entries into rows of \<open>d\<close> entries.\<close>

fun rows_of :: "nat \<Rightarrow> real list \<Rightarrow> matrix" where
  "rows_of d xs = (if d = 0 \<or> xs = [] then [] else take d xs # rows_of d (drop d xs))"

declare rows_of.simps [simp del]

text \<open>
  \<open>t.view(-1, d)\<close>: the entries of \<open>t\<close> in storage order, regrouped into rows of \<open>d\<close>.
  It fails when the number of entries is not a multiple of \<open>d\<close>.
\<close>

definition view :: "nat \<Rightarrow> matrix \<Rightarrow> error + matrix" where
  "view d t =
     (let flat = concat t
      in if d = 0 \<or> length flat mod d \<noteq> 0 then Inl DimensionMismatch
         else Inr (rows_of d flat))"

text \<open>\<open>a * b\<close> and \<open>a + b\<close> on tensors of the same shape: entry by entry.\<close>

definition pointwise :: "(real \<Rightarrow> real \<Rightarrow> real) \<Rightarrow> matrix \<Rightarrow> matrix \<Rightarrow> error + matrix" where
  "pointwise f a b =
     (if map length a = map length b then Inr (map2 (map2 f) a b)
      else Inl DimensionMismatch)"

text \<open>
  \<open>t.sum(1)\<close>: every row is reduced to its sum.  The reduced dimension is kept with size
  one, as in the backend release this code was written for, so that the result has the
  shape of the bias columns \<open>view(-1, 1)\<close> it is added to.
\<close>

definition sum1 :: "matrix \<Rightarrow> matrix" where
  "sum1 t = map (\<lambda>row. [sum_list row]) t"

text \<open>\<open>BilinearNet.forward(self, user_ids, item_ids)\<close>, statement by statement.\<close>

definition forward :: "nat list \<Rightarrow> nat list \<Rightarrow> matrix net_op" where
  "forward user_ids item_ids =
     bind_op (call_layer user_embeddings user_ids) (\<lambda>user_embedding.
     bind_op (call_layer item_embeddings item_ids) (\<lambda>item_embedding.
     bind_op (attribute embedding_dim) (\<lambda>d.
     bind_op (local_op (view d user_embedding)) (\<lambda>user_embedding.
     bind_op (attribute embedding_dim) (\<lambda>d.
     bind_op (local_op (view d item_embedding)) (\<lambda>item_embedding.
     bind_op (call_layer user_biases user_ids) (\<lambda>ub.
     bind_op (local_op (view 1 ub)) (\<lambda>user_bias.
     bind_op (call_layer item_biases item_ids) (\<lambda>ib.
     bind_op (local_op (view 1 ib)) (\<lambda>item_bias.
     bind_op (local_op (pointwise (*) user_embedding item_embedding)) (\<lambda>product.
     let dot = sum1 product in
     bind_op (local_op (pointwise (+) dot user_bias)) (\<lambda>partial.
     local_op (pointwise (+) partial item_bias)))))))))))))"

text \<open>
  The shape of a scorer's tables: \<open>embedding_dim\<close> columns in both embedding tables, one
  column in both bias tables, and as many bias rows as embedding rows.  The dimension is
  positive (the initial scale of the embeddings divides by it).
\<close>

definition well_formed :: "BilinearNet \<Rightarrow> bool" where
  "well_formed net \<longleftrightarrow>
     0 < embedding_dim net
     \<and> (\<forall>row \<in> set (weight (user_embeddings net)). length row = embedding_dim net)
     \<and> (\<forall>row \<in> set (weight (item_embeddings net)). length row = embedding_dim net)
     \<and> length (weight (user_biases net)) = num_users net
     \<and> length (weight (item_biases net)) = num_items net
     \<and> (\<forall>row \<in> set (weight (user_biases net)). length row = 1)
     \<and> (\<forall>row \<in> set (weight (item_biases net)). length row = 1)"

text \<open>The quantities of the specification's formula for one pair \<open>(u, i)\<close>.\<close>

definition dot :: "real list \<Rightarrow> real list \<Rightarrow> real" where
  "dot x y = sum_list (map2 (*) x y)"

definition user_embedding :: "BilinearNet \<Rightarrow> nat \<Rightarrow> real list" where
  "user_embedding net u = weight (user_embeddings net) ! u"

definition item_embedding :: "BilinearNet \<Rightarrow> nat \<Rightarrow> real list" where
  "item_embedding net i = weight (item_embeddings net) ! i"

definition user_bias :: "BilinearNet \<Rightarrow> nat \<Rightarrow> real" where
  "user_bias net u = hd (weight (user_biases net) ! u)"

definition item_bias :: "BilinearNet \<Rightarrow> nat \<Rightarrow> real" where
  "item_bias net i = hd (weight (item_biases net) ! i)"

definition prediction :: "BilinearNet \<Rightarrow> nat \<Rightarrow> nat \<Rightarrow> real" where
  "prediction net u i =
     dot (user_embedding net u) (item_embedding net i) + user_bias net u + item_bias net i"


text \<open>A scorer with two users and three items, for concrete evaluations.\<close>

definition example_net :: BilinearNet where
  "example_net =
     \<lparr>embedding_dim = 2,
      user_embeddings = \<lparr>weight = [[1, 2], [0, 1]], sparse = False\<rparr>,
      item_embeddings = \<lparr>weight = [[3, 4], [1, 1], [2, 0]], sparse = False\<rparr>,
      user_biases = \<lparr>weight = [[1 / 2], [1]], sparse = False\<rparr>,
      item_biases = \<lparr>weight = [[- 1 / 2], [0], [2]], sparse = False\<rparr>\<rparr>"

text \<open>An operation is read-only when it returns the object as it received it.\<close>

definition read_only :: "'a net_op \<Rightarrow> bool" where
  "read_only m \<longleftrightarrow> (\<forall>self. snd (m self) = self)"

section \<open>Model initialization\<close>

text \<open>
  Modelled from the spec: \<open>ScaledEmbedding\<close> (\<open>spotlight.layers\<close>, not among the sources)
  is a table of \<open>n\<close> rows and \<open>d\<close> columns whose entries are drawn from a zero-mean
  distribution scaled down by the dimension.  The draws of the random generator are the
  parameter \<open>noise\<close>.
\<close>

definition ScaledEmbedding :: "(nat \<Rightarrow> nat \<Rightarrow> real) \<Rightarrow> nat \<Rightarrow> nat \<Rightarrow> bool \<Rightarrow> Embedding" where
  "ScaledEmbedding noise n d sp =
     \<lparr>weight = map (\<lambda>r. map (\<lambda>c. noise r c / real d) [0..<d]) [0..<n], sparse = sp\<rparr>"

text \<open>
  Modelled from the spec: \<open>ZeroEmbedding\<close> (\<open>spotlight.layers\<close>, not among the sources) is a
  table of \<open>n\<close> rows and \<open>d\<close> columns initialized to zero.
\<close>

definition ZeroEmbedding :: "nat \<Rightarrow> nat \<Rightarrow> bool \<Rightarrow> Embedding" where
  "ZeroEmbedding n d sp = \<lparr>weight = replicate n (replicate d 0), sparse = sp\<rparr>"

text \<open>
  \<open>BilinearNet.__init__(self, num_users, num_items, embedding_dim=32, sparse=False)\<close>.
  An optional argument that the caller leaves out is \<open>None\<close> here.  The two noise
  parameters are the generator's draws for the user and the item table.
\<close>

definition BilinearNet_init ::
  "(nat \<Rightarrow> nat \<Rightarrow> real) \<Rightarrow> (nat \<Rightarrow> nat \<Rightarrow> real) \<Rightarrow> nat \<Rightarrow> nat \<Rightarrow> nat option \<Rightarrow> bool option
     \<Rightarrow> BilinearNet" where
  "BilinearNet_init user_noise item_noise n_users n_items dim_arg sparse_arg =
     (let d = (case dim_arg of None \<Rightarrow> 32 | Some d \<Rightarrow> d);
          sp = (case sparse_arg of None \<Rightarrow> False | Some b \<Rightarrow> b)
      in \<lparr>embedding_dim = d,
          user_embeddings = ScaledEmbedding user_noise n_users d sp,
          item_embeddings = ScaledEmbedding item_noise n_items d sp,
          user_biases = ZeroEmbedding n_users 1 sp,
          item_biases = ZeroEmbedding n_items 1 sp\<rparr>)"

section \<open>Splitter\<close>

text \<open>
  An interaction is a triple of user index, item index and rating; a store is the ordered
  collection of interactions with the sizes of the two index spaces.
\<close>

type_synonym interaction = "nat \<times> nat \<times> real"

record Interactions =
  store_num_users :: nat
  store_num_items :: nat
  interactions :: "interaction list"

text \<open>
  Modelled from the spec: the splitter (\<open>spotlight.cross_validation\<close>) is called by the
  example but its code is not among the sources.  The seed determines a
  permutation of the positions of the store; the first \<open>round (test_fraction * len)\<close>
  positions of the permutation go to the test store and the remainder to the train store.
  The pseudorandom generator is the parameter \<open>permutation\<close>: \<open>permutation seed n\<close> is the
  order in which it lists the positions below \<open>n\<close>.  The cutoff is rounded to the nearest
  integer; none of the properties below depends on how a tie is rounded.
\<close>

definition split_positions ::
  "(nat \<Rightarrow> nat \<Rightarrow> nat list) \<Rightarrow> nat \<Rightarrow> real \<Rightarrow> nat \<Rightarrow> nat list \<times> nat list" where
  "split_positions permutation n test_fraction seed =
     (let order = permutation seed n;
          cutoff = nat (round (test_fraction * real n))
      in (drop cutoff order, take cutoff order))"

text \<open>
  Modelled from the spec: the store that holds the interactions of \<open>store\<close> at the given
  positions, with the index spaces of the original.
\<close>

definition select :: "Interactions \<Rightarrow> nat list \<Rightarrow> Interactions" where
  "select store positions =
     store\<lparr>interactions := map (\<lambda>p. interactions store ! p) positions\<rparr>"

text \<open>
  Modelled from the spec: \<open>random_train_test_split\<close>, the specification's
  \<open>split(store, test_fraction, random_seed)\<close>, returns the train store and the test store,
  and fails with InvalidArgument when the fraction is outside (0, 1) or the store is empty.
\<close>

definition random_train_test_split ::
  "(nat \<Rightarrow> nat \<Rightarrow> nat list) \<Rightarrow> Interactions \<Rightarrow> real \<Rightarrow> nat
     \<Rightarrow> error + Interactions \<times> Interactions" where
  "random_train_test_split permutation store test_fraction seed =
     (if \<not> (0 < test_fraction \<and> test_fraction < 1) \<or> interactions store = []
      then Inl InvalidArgument
      else (case split_positions permutation (length (interactions store)) test_fraction seed of
              (train, test) \<Rightarrow> Inr (select store train, select store test)))"

text \<open>
  The store of the specification's scenario, and a generator for concrete evaluations
  that lists the positions rotated by the seed.
\<close>

definition scenario_store :: Interactions where
  "scenario_store =
     \<lparr>store_num_users = 4, store_num_items = 3,
      interactions = [(0, 0, 5), (1, 1, 3), (2, 2, 4), (3, 0, 2)]\<rparr>"

definition rotation :: "nat \<Rightarrow> nat \<Rightarrow> nat list" where
  "rotation seed n = rotate seed [0..<n]"

section \<open>Properties of the regression loss\<close>

lemma sum_list_map2_nth:
  "length a = length b \<Longrightarrow>
     sum_list (map2 f a b) = (\<Sum>k<length a. f (a ! k) (b ! k))"
proof (induction a b rule: list_induct2)
  case Nil
  then show ?case by simp
next
  case (Cons x xs y ys)
  have "(\<Sum>k<length (x # xs). f ((x # xs) ! k) ((y # ys) ! k))
          = f x y + (\<Sum>k<length xs. f (xs ! k) (ys ! k))"
    by (simp add: sum.lessThan_Suc_shift del: sum.lessThan_Suc)
  with Cons show ?case by simp
qed

lemma regression_loss_constant:
  assumes "length a = length (entries p)" and "a \<noteq> []"
  shows "regression_loss (const_tensor a) p
           = Inr (Finite (sum_list (map2 (\<lambda>x y. (x - y) ^ 2) a (entries p)) / real (length a)))"
proof -
  have m: "map (\<lambda>x. x ^ 2) (map2 (\<lambda>x y. x - y) a (entries p))
             = map2 (\<lambda>x y. (x - y) ^ 2) a (entries p)"
    by (simp add: map_zip_map2 comp_def split_def)
  from assms have ne: "map2 (\<lambda>x y. (x - y) ^ 2) a (entries p) \<noteq> []"
    by (cases a; cases "entries p") auto
  show ?thesis
    using assms ne
    by (simp add: regression_loss_def assert_no_grad_def const_tensor_def tensor_sub_def
        tensor_mean_def tensor_square_def m del: map_map)
qed




text \<open>
  Claim C3.  For observed and predicted sequences of the same length that are not empty,
  the regression loss is the arithmetic mean of the squared differences of the entries at
  equal positions, whether or not the predictions carry a gradient.  In particular the loss
  of [1, 2, 3] against [1, 2, 3] is 0 and the loss of [0, 0] against [1, 1] is 1.
\<close>

theorem regression_loss_mean_squared:
  "(\<forall>observed predicted g. length observed = length predicted \<and> observed \<noteq> [] \<longrightarrow>
      regression_loss (const_tensor observed) \<lparr>entries = predicted, requires_grad = g\<rparr>
        = Inr (Finite (mean_squared_difference observed predicted)))
   \<and> regression_loss (const_tensor [1, 2, 3]) (const_tensor [1, 2, 3]) = Inr (Finite 0)
   \<and> regression_loss (const_tensor [0, 0]) (const_tensor [1, 1]) = Inr (Finite 1)"
proof (intro conjI allI impI)
  fix observed predicted :: "real list" and g
  assume h: "length observed = length predicted \<and> observed \<noteq> []"
  then show "regression_loss (const_tensor observed) \<lparr>entries = predicted, requires_grad = g\<rparr>
        = Inr (Finite (mean_squared_difference observed predicted))"
    using regression_loss_constant [of observed "\<lparr>entries = predicted, requires_grad = g\<rparr>"]
    by (simp add: mean_squared_difference_def sum_list_map2_nth)
next
  show "regression_loss (const_tensor [1, 2, 3]) (const_tensor [1, 2, 3]) = Inr (Finite 0)"
    by (simp add: regression_loss_def assert_no_grad_def const_tensor_def tensor_sub_def
        tensor_square_def tensor_mean_def)
next
  show "regression_loss (const_tensor [0, 0]) (const_tensor [1, 1]) = Inr (Finite 1)"
    by (simp add: regression_loss_def assert_no_grad_def const_tensor_def tensor_sub_def
        tensor_square_def tensor_mean_def)
qed

theorem regression_loss_mean_squared_witness:
  "length [1, 3 :: real] = length [2, 5 :: real] \<and> [1, 3 :: real] \<noteq> []
   \<and> regression_loss (const_tensor [1, 3]) \<lparr>entries = [2, 5], requires_grad = True\<rparr>
        = Inr (Finite (5 / 2))"
  using regression_loss_mean_squared
  by (simp add: mean_squared_difference_def eval_nat_numeral)






section \<open>Properties of the scorer\<close>

lemma embedding_rows_eq:
  "embedding_rows W ids =
     (if \<forall>i \<in> set ids. i < length W then Inr (map ((!) W) ids) else Inl IndexOutOfRange)"
  by (induction ids) auto

lemma rows_of_Nil: "rows_of d [] = []"
  by (simp add: rows_of.simps)

lemma rows_of_append:
  "0 < d \<Longrightarrow> length r = d \<Longrightarrow> rows_of d (r @ rest) = r # rows_of d rest"
  by (subst rows_of.simps) auto

lemma rows_of_concat:
  "0 < d \<Longrightarrow> \<forall>r \<in> set m. length r = d \<Longrightarrow> rows_of d (concat m) = m"
  by (induction m) (simp_all add: rows_of_Nil rows_of_append)

lemma length_concat_rows:
  "\<forall>r \<in> set m. length r = d \<Longrightarrow> length (concat m) = length m * d"
  by (induction m) simp_all

lemma view_rows:
  assumes "0 < d" and "\<forall>r \<in> set m. length r = d"
  shows "view d m = Inr m"
proof -
  have "length (concat m) mod d = 0"
    using length_concat_rows [OF assms(2)] by simp
  then show ?thesis
    using assms by (simp add: view_def Let_def rows_of_concat)
qed

lemma map_length_rows:
  "\<forall>r \<in> set m. length r = d \<Longrightarrow> map length m = replicate (length m) d"
  by (induction m) simp_all

lemma scores_of_rows:
  assumes "length us = length is"
    and "\<forall>u \<in> set us. u < length UB \<and> length (UB ! u) = 1"
    and "\<forall>i \<in> set is. i < length IB \<and> length (IB ! i) = 1"
  shows "map2 (map2 (+))
           (map2 (map2 (+))
              (sum1 (map2 (map2 (*)) (map ((!) UW) us) (map ((!) IW) is)))
              (map ((!) UB) us))
           (map ((!) IB) is)
         = map2 (\<lambda>u i. [dot (UW ! u) (IW ! i) + hd (UB ! u) + hd (IB ! i)]) us is"
  using assms
proof (induction us "is" rule: list_induct2)
  case Nil
  then show ?case by (simp add: sum1_def)
next
  case (Cons u us i "is")
  from Cons.prems obtain b where b: "UB ! u = [b]"
    by (cases "UB ! u") auto
  from Cons.prems obtain c where c: "IB ! i = [c]"
    by (cases "IB ! i") auto
  from Cons show ?case
    by (simp add: sum1_def dot_def b c)
qed

lemma forward_batch:
  assumes wf: "well_formed net"
    and len: "length user_ids = length item_ids"
    and us: "\<forall>u \<in> set user_ids. u < num_users net"
    and "is": "\<forall>i \<in> set item_ids. i < num_items net"
  shows "forward user_ids item_ids net
           = (Inr (map2 (\<lambda>u i. [prediction net u i]) user_ids item_ids), net)"
proof -
  let ?UW = "weight (user_embeddings net)" and ?IW = "weight (item_embeddings net)"
  let ?UB = "weight (user_biases net)" and ?IB = "weight (item_biases net)"
  let ?d = "embedding_dim net"
  let ?ue = "map ((!) ?UW) user_ids" and ?ie = "map ((!) ?IW) item_ids"
  let ?ub = "map ((!) ?UB) user_ids" and ?ib = "map ((!) ?IB) item_ids"
  from wf have d: "0 < ?d" by (simp add: well_formed_def)
  have e1: "embedding_rows ?UW user_ids = Inr ?ue"
    using us by (simp add: embedding_rows_eq num_users_def)
  have e2: "embedding_rows ?IW item_ids = Inr ?ie"
    using "is" by (simp add: embedding_rows_eq num_items_def)
  have e3: "embedding_rows ?UB user_ids = Inr ?ub"
    using us wf by (simp add: embedding_rows_eq well_formed_def)
  have e4: "embedding_rows ?IB item_ids = Inr ?ib"
    using "is" wf by (simp add: embedding_rows_eq well_formed_def)
  have r1: "\<forall>r \<in> set ?ue. length r = ?d"
    using us wf by (auto simp add: well_formed_def num_users_def)
  have r2: "\<forall>r \<in> set ?ie. length r = ?d"
    using "is" wf by (auto simp add: well_formed_def num_items_def)
  have r3: "\<forall>r \<in> set ?ub. length r = 1"
    using us wf by (auto simp add: well_formed_def)
  have r4: "\<forall>r \<in> set ?ib. length r = 1"
    using "is" wf by (auto simp add: well_formed_def)
  have b1: "\<forall>u \<in> set user_ids. u < length ?UB \<and> length (?UB ! u) = 1"
    using us wf by (auto simp add: well_formed_def)
  have b2: "\<forall>i \<in> set item_ids. i < length ?IB \<and> length (?IB ! i) = 1"
    using "is" wf by (auto simp add: well_formed_def)
  have v1: "view ?d ?ue = Inr ?ue" by (rule view_rows [OF d r1])
  have v2: "view ?d ?ie = Inr ?ie" by (rule view_rows [OF d r2])
  have v3: "view 1 ?ub = Inr ?ub" by (rule view_rows [OF _ r3]) simp
  have v4: "view 1 ?ib = Inr ?ib" by (rule view_rows [OF _ r4]) simp
  have s1: "map length ?ue = map length ?ie"
    using map_length_rows [OF r1] map_length_rows [OF r2] len by simp
  have p1: "pointwise (*) ?ue ?ie = Inr (map2 (map2 (*)) ?ue ?ie)"
    using s1 by (simp add: pointwise_def)
  have r5: "\<forall>r \<in> set (sum1 (map2 (map2 (*)) ?ue ?ie)). length r = 1"
    by (auto simp add: sum1_def)
  have s2: "map length (sum1 (map2 (map2 (*)) ?ue ?ie)) = map length ?ub"
    using map_length_rows [OF r5] map_length_rows [OF r3] len by (simp add: sum1_def)
  have p2: "pointwise (+) (sum1 (map2 (map2 (*)) ?ue ?ie)) ?ub
              = Inr (map2 (map2 (+)) (sum1 (map2 (map2 (*)) ?ue ?ie)) ?ub)"
    using s2 by (simp add: pointwise_def)
  have s3: "map length (map2 (map2 (+)) (sum1 (map2 (map2 (*)) ?ue ?ie)) ?ub) = map length ?ib"
    using map_length_rows [OF r4] len b1
    by (auto simp add: list_eq_iff_nth_eq sum1_def)
  have p3: "pointwise (+) (map2 (map2 (+)) (sum1 (map2 (map2 (*)) ?ue ?ie)) ?ub) ?ib
              = Inr (map2 (map2 (+)) (map2 (map2 (+)) (sum1 (map2 (map2 (*)) ?ue ?ie)) ?ub) ?ib)"
    using s3 by (simp add: pointwise_def)
  have fin: "map2 (map2 (+)) (map2 (map2 (+)) (sum1 (map2 (map2 (*)) ?ue ?ie)) ?ub) ?ib
               = map2 (\<lambda>u i. [prediction net u i]) user_ids item_ids"
    using scores_of_rows [OF len b1 b2, of ?UW ?IW]
    by (simp add: prediction_def user_embedding_def item_embedding_def user_bias_def
        item_bias_def)
  show ?thesis
    by (simp add: forward_def bind_op_def call_layer_def attribute_def local_op_def Let_def
        e1 e2 e3 e4 v1 v2 v3 v4 p1 p2 p3 fin del: map_map One_nat_def)
qed


lemmas forward_eval =
  forward_def bind_op_def call_layer_def attribute_def local_op_def Let_def
  view_def rows_of.simps pointwise_def sum1_def

lemmas net_eval =
  well_formed_def num_users_def num_items_def dot_def user_embedding_def item_embedding_def
  user_bias_def item_bias_def

lemma num_users_init:
  "num_users (BilinearNet_init a b n_users n_items dim_arg sparse_arg) = n_users"
  by (simp add: num_users_def BilinearNet_init_def ScaledEmbedding_def Let_def)

lemma num_items_init:
  "num_items (BilinearNet_init a b n_users n_items dim_arg sparse_arg) = n_items"
  by (simp add: num_items_def BilinearNet_init_def ScaledEmbedding_def Let_def)

lemma forward_user_out_of_range:
  assumes "\<exists>u \<in> set user_ids. num_users net \<le> u"
  shows "fst (forward user_ids item_ids net) = Inl IndexOutOfRange"
proof -
  from assms have "embedding_rows (weight (user_embeddings net)) user_ids = Inl IndexOutOfRange"
    by (fastforce simp add: embedding_rows_eq num_users_def not_less)
  then show ?thesis
    by (simp add: forward_def bind_op_def call_layer_def)
qed

lemma forward_item_out_of_range:
  assumes "\<exists>i \<in> set item_ids. num_items net \<le> i"
  shows "fst (forward user_ids item_ids net) = Inl IndexOutOfRange"
proof (cases "\<exists>u \<in> set user_ids. num_users net \<le> u")
  case True
  then show ?thesis by (rule forward_user_out_of_range)
next
  case False
  then have "embedding_rows (weight (user_embeddings net)) user_ids
               = Inr (map ((!) (weight (user_embeddings net))) user_ids)"
    by (auto simp add: embedding_rows_eq num_users_def)
  moreover from assms
  have "embedding_rows (weight (item_embeddings net)) item_ids = Inl IndexOutOfRange"
    by (fastforce simp add: embedding_rows_eq num_items_def not_less)
  ultimately show ?thesis
    by (simp add: forward_def bind_op_def call_layer_def)
qed

lemma read_only_attribute: "read_only (attribute field)"
  by (simp add: read_only_def attribute_def)

lemma read_only_call_layer: "read_only (call_layer layer ids)"
  by (simp add: read_only_def call_layer_def)

lemma read_only_local_op: "read_only (local_op r)"
  by (simp add: read_only_def local_op_def)

lemma read_only_bind:
  "read_only m \<Longrightarrow> (\<And>x. read_only (f x)) \<Longrightarrow> read_only (bind_op m f)"
  by (auto simp add: read_only_def bind_op_def split: prod.splits sum.splits)
    (metis snd_conv)+

lemma read_only_forward: "read_only (forward user_ids item_ids)"
  unfolding forward_def Let_def
  by (intro read_only_bind read_only_attribute read_only_call_layer read_only_local_op)

lemma forward_unchanged: "snd (forward user_ids item_ids net) = net"
  using read_only_forward by (simp add: read_only_def)





text \<open>
  Claim C7.  Whenever some user index of the batch is at least \<open>num_users\<close> or some item
  index is at least \<open>num_items\<close>, \<open>forward\<close> fails with IndexOutOfRange.  In particular it
  fails for the user index equal to \<open>num_users\<close>, also on a scorer as \<open>__init__\<close> constructs
  it for \<open>num_users\<close> users.
\<close>

theorem forward_index_out_of_range:
  "((\<exists>u \<in> set user_ids. num_users net \<le> u) \<or> (\<exists>i \<in> set item_ids. num_items net \<le> i)
      \<longrightarrow> fst (forward user_ids item_ids net) = Inl IndexOutOfRange)
   \<and> fst (forward [num_users net] [i] net) = Inl IndexOutOfRange
   \<and> fst (forward [n_users] [i] (BilinearNet_init a b n_users n_items dim_arg sparse_arg))
       = Inl IndexOutOfRange"
proof (intro conjI impI)
  assume "(\<exists>u \<in> set user_ids. num_users net \<le> u) \<or> (\<exists>i \<in> set item_ids. num_items net \<le> i)"
  then show "fst (forward user_ids item_ids net) = Inl IndexOutOfRange"
    using forward_user_out_of_range forward_item_out_of_range by blast
next
  show "fst (forward [num_users net] [i] net) = Inl IndexOutOfRange"
    by (rule forward_user_out_of_range) simp
next
  show "fst (forward [n_users] [i] (BilinearNet_init a b n_users n_items dim_arg sparse_arg))
       = Inl IndexOutOfRange"
    by (rule forward_user_out_of_range) (simp add: num_users_init)
qed

theorem forward_index_out_of_range_witness:
  "(\<exists>u \<in> set [0, 2]. num_users example_net \<le> u)
   \<and> fst (forward [0, 2] [1, 1] example_net) = Inl IndexOutOfRange
   \<and> (\<exists>i \<in> set [0, 3]. num_items example_net \<le> i)
   \<and> fst (forward [1, 1] [0, 3] example_net) = Inl IndexOutOfRange
   \<and> fst (forward [1] [2] example_net) = Inr [[3]]"
  using forward_index_out_of_range [of "[0, 2]" example_net "[1, 1]"]
    forward_index_out_of_range [of "[1, 1]" example_net "[0, 3]"]
  by (simp add: forward_eval net_eval example_net_def)

text \<open>
  Claim C8.  \<open>forward\<close> returns the scorer object as it received it: no embedding and no
  bias is changed by scoring.  For every well-formed scorer and every valid batch the call
  returns its predictions together with the unchanged object.
\<close>

theorem forward_pure_read:
  "snd (forward user_ids item_ids net) = net
   \<and> (well_formed net \<and> length user_ids = length item_ids
        \<and> (\<forall>u \<in> set user_ids. u < num_users net) \<and> (\<forall>i \<in> set item_ids. i < num_items net)
      \<longrightarrow> (\<exists>P. forward user_ids item_ids net = (Inr P, net)))"
proof (intro conjI impI)
  show "snd (forward user_ids item_ids net) = net"
    by (rule forward_unchanged)
next
  assume "well_formed net \<and> length user_ids = length item_ids
        \<and> (\<forall>u \<in> set user_ids. u < num_users net) \<and> (\<forall>i \<in> set item_ids. i < num_items net)"
  then have "forward user_ids item_ids net
               = (Inr (map2 (\<lambda>u i. [prediction net u i]) user_ids item_ids), net)"
    by (intro forward_batch) simp_all
  then show "\<exists>P. forward user_ids item_ids net = (Inr P, net)"
    by simp
qed

theorem forward_pure_read_witness:
  "well_formed example_net \<and> length [1, 0 :: nat] = length [2, 0 :: nat]
   \<and> list_all (\<lambda>u. u < num_users example_net) [1, 0]
   \<and> list_all (\<lambda>i. i < num_items example_net) [2, 0]
   \<and> forward [1, 0] [2, 0] example_net = (Inr [[3], [11]], example_net)"
  using forward_pure_read [of "[1, 0]" "[2, 0]" example_net]
  by (simp add: forward_eval net_eval example_net_def)

section \<open>Properties of model initialization\<close>

lemma well_formed_init:
  "0 < (case dim_arg of None \<Rightarrow> 32 | Some d \<Rightarrow> d) \<Longrightarrow>
     well_formed (BilinearNet_init a b n_users n_items dim_arg sparse_arg)"
  by (auto simp add: BilinearNet_init_def ZeroEmbedding_def ScaledEmbedding_def Let_def
      well_formed_def num_users_def num_items_def split: option.splits)

text \<open>
  Claim C9.  In the scorer that \<open>__init__\<close> constructs, every user bias and every item
  bias is zero; the tables have one row per user and per item; every row of the user
  embedding table and every row of the item embedding table has the one dimension stored
  in \<open>embedding_dim\<close>; and that dimension is the argument given, or 32 when none is given.
\<close>

theorem BilinearNet_init_biases_dim:
  "weight (user_biases (BilinearNet_init a b n_users n_items dim_arg sparse_arg))
     = replicate n_users [0]
   \<and> weight (item_biases (BilinearNet_init a b n_users n_items dim_arg sparse_arg))
       = replicate n_items [0]
   \<and> (\<forall>u < n_users.
         user_bias (BilinearNet_init a b n_users n_items dim_arg sparse_arg) u = 0)
   \<and> (\<forall>i < n_items.
         item_bias (BilinearNet_init a b n_users n_items dim_arg sparse_arg) i = 0)
   \<and> num_users (BilinearNet_init a b n_users n_items dim_arg sparse_arg) = n_users
   \<and> num_items (BilinearNet_init a b n_users n_items dim_arg sparse_arg) = n_items
   \<and> (\<forall>row \<in> set (weight (user_embeddings
                               (BilinearNet_init a b n_users n_items dim_arg sparse_arg))).
         length row = embedding_dim (BilinearNet_init a b n_users n_items dim_arg sparse_arg))
   \<and> (\<forall>row \<in> set (weight (item_embeddings
                               (BilinearNet_init a b n_users n_items dim_arg sparse_arg))).
         length row = embedding_dim (BilinearNet_init a b n_users n_items dim_arg sparse_arg))
   \<and> embedding_dim (BilinearNet_init a b n_users n_items dim_arg sparse_arg)
       = (case dim_arg of None \<Rightarrow> 32 | Some d \<Rightarrow> d)"
  by (auto simp add: BilinearNet_init_def ZeroEmbedding_def ScaledEmbedding_def Let_def
      user_bias_def item_bias_def num_users_def num_items_def split: option.splits)

theorem BilinearNet_init_biases_dim_witness:
  "(1 :: nat) < 2 \<and> (2 :: nat) < 3
   \<and> user_bias (BilinearNet_init (\<lambda>r c. real (r + c)) (\<lambda>r c. real r - real c) 2 3 None None) 1 = 0
   \<and> item_bias (BilinearNet_init (\<lambda>r c. real (r + c)) (\<lambda>r c. real r - real c) 2 3 None None) 2 = 0
   \<and> embedding_dim (BilinearNet_init (\<lambda>r c. real (r + c)) (\<lambda>r c. real r - real c) 2 3 None None) = 32
   \<and> weight (user_embeddings (BilinearNet_init (\<lambda>r c. real (r + c)) (\<lambda>r c. real r - real c) 2 3 (Some 2) None))
        = [[0, 1 / 2], [1 / 2, 1]]
   \<and> [1 / 2, 1] \<in> set (weight (user_embeddings
          (BilinearNet_init (\<lambda>r c. real (r + c)) (\<lambda>r c. real r - real c) 2 3 (Some 2) None)))
   \<and> length [1 / 2, 1 :: real]
        = embedding_dim (BilinearNet_init (\<lambda>r c. real (r + c)) (\<lambda>r c. real r - real c) 2 3 (Some 2) None)"
  using BilinearNet_init_biases_dim [of "\<lambda>r c. real (r + c)" "\<lambda>r c. real r - real c" 2 3 None None]
    BilinearNet_init_biases_dim [of "\<lambda>r c. real (r + c)" "\<lambda>r c. real r - real c" 2 3 "Some 2" None]
  by (simp add: BilinearNet_init_def ZeroEmbedding_def ScaledEmbedding_def Let_def
      user_bias_def item_bias_def upt_conv_Cons eval_nat_numeral)

section \<open>Properties of the splitter\<close>

lemma rotation_42_4: "rotation 42 4 = [2, 3, 0, 1]"
  by code_simp

lemma scenario_nonempty: "interactions scenario_store \<noteq> []"
  by (simp add: scenario_store_def)

lemma scenario_length: "length (interactions scenario_store) = 4"
  by (simp add: scenario_store_def)

lemma scenario_positions: "split_positions rotation 4 (1 / 4) 42 = ([3, 0, 1], [2])"
  by (simp add: split_positions_def rotation_42_4 Let_def)


lemma split_succeeds:
  assumes "interactions store \<noteq> []" and "0 < test_fraction" and "test_fraction < 1"
  shows "random_train_test_split permutation store test_fraction seed
           = Inr (select store (fst (split_positions permutation (length (interactions store))
                                       test_fraction seed)),
                  select store (snd (split_positions permutation (length (interactions store))
                                       test_fraction seed)))"
  using assms by (simp add: random_train_test_split_def split: prod.splits)



text \<open>
  Claim C6.  For a store that is not empty, a test fraction strictly between 0 and 1 and
  a seed whose permutation lists every position of the store once, the split returns the
  stores selected by two lists of positions that have no position in common and together
  hold every position of the store, each once.  The lengths of the train and the test
  store add up to the length of the store, and their interactions together are the
  interactions of the store, each as often as the store has it.
\<close>

theorem split_partition:
  assumes "interactions store \<noteq> []" and "0 < test_fraction" and "test_fraction < 1"
    and "distinct (permutation seed (length (interactions store)))"
    and "set (permutation seed (length (interactions store)))
           = {0..<length (interactions store)}"
  shows "\<exists>train test.
           split_positions permutation (length (interactions store)) test_fraction seed
             = (train, test)
           \<and> random_train_test_split permutation store test_fraction seed
               = Inr (select store train, select store test)
           \<and> set train \<inter> set test = {}
           \<and> set train \<union> set test = {0..<length (interactions store)}
           \<and> distinct train \<and> distinct test
           \<and> length (interactions (select store train)) + length (interactions (select store test))
               = length (interactions store)
           \<and> mset (interactions (select store train) @ interactions (select store test))
               = mset (interactions store)"
proof -
  let ?n = "length (interactions store)"
  let ?order = "permutation seed ?n"
  let ?k = "nat (round (test_fraction * real ?n))"
  have pos: "split_positions permutation ?n test_fraction seed = (drop ?k ?order, take ?k ?order)"
    by (simp add: split_positions_def Let_def)
  have run: "random_train_test_split permutation store test_fraction seed
               = Inr (select store (drop ?k ?order), select store (take ?k ?order))"
    using split_succeeds [OF assms(1-3)] pos by simp
  have disj: "set (drop ?k ?order) \<inter> set (take ?k ?order) = {}"
    using set_take_disj_set_drop_if_distinct [OF assms(4), of ?k ?k] by auto
  have "set (take ?k ?order) \<union> set (drop ?k ?order) = set ?order"
    by (metis append_take_drop_id set_append)
  with assms(5) have cover: "set (drop ?k ?order) \<union> set (take ?k ?order) = {0..<?n}"
    by (metis Un_commute)
  have "length ?order = ?n"
    using distinct_card [OF assms(4)] assms(5) by simp
  then have len: "length (interactions (select store (drop ?k ?order)))
                    + length (interactions (select store (take ?k ?order))) = ?n"
    by (simp add: select_def)
  have "set ?order = set [0..<?n]"
    using assms(5) by simp
  then have "mset ?order = mset [0..<?n]"
    by (metis assms(4) distinct_upt set_eq_iff_mset_eq_distinct)
  then have "image_mset ((!) (interactions store)) (mset (take ?k ?order @ drop ?k ?order))
               = mset (map ((!) (interactions store)) [0..<?n])"
    by simp
  then have all: "mset (interactions (select store (drop ?k ?order))
                        @ interactions (select store (take ?k ?order)))
                    = mset (interactions store)"
    by (simp add: select_def map_nth add.commute del: append_take_drop_id)
  show ?thesis
    using pos run disj cover len all assms(4) by simp
qed

theorem split_partition_witness:
  "interactions scenario_store \<noteq> [] \<and> (0 :: real) < 1 / 4 \<and> (1 / 4 :: real) < 1
   \<and> distinct (rotation 42 (length (interactions scenario_store)))
   \<and> set (rotation 42 (length (interactions scenario_store)))
        = {0..<length (interactions scenario_store)}
   \<and> split_positions rotation (length (interactions scenario_store)) (1 / 4) 42
        = ([3, 0, 1], [2])
   \<and> set [3, 0, 1 :: nat] \<inter> set [2] = {}
   \<and> set [3, 0, 1 :: nat] \<union> set [2] = {0..<4}"
  using split_partition [of scenario_store "1 / 4" rotation 42]
  by (simp add: scenario_nonempty scenario_length scenario_positions rotation_def)

end
